theory Spec2Isabelle
  imports Main
begin

section \<open>The users store of the editor (users.store.ts)\<close>

text \<open>
  The store keeps four pieces of state: \<open>initialized\<close>, \<open>currentUserId\<close>, the
  \<open>users\<close> mapping from ids to user records, and \<open>currentUserCloudInfo\<close>.
  Its actions call the REST client and fold the answer into that state.

  The embedding follows the JavaScript that runs, not only the TypeScript types: a user
  record is an object, that is a finite mapping from property names to values, and a
  property can be absent, or present with the value \<open>undefined\<close>. Object spread is
  the overlay of two such mappings.
\<close>

subsection \<open>JavaScript values\<close>

text \<open>
  The values a user record carries: \<open>undefined\<close>, \<open>null\<close>, booleans, strings and
  nested objects. Numbers and arrays are left out: by the declarations the store works
  with, every property the store reads (\<open>id\<close>, \<open>firstName\<close>, \<open>lastName\<close>,
  \<open>isPending\<close>, \<open>globalRole\<close>, \<open>emailSent\<close>, \<open>error\<close>) is a string, a boolean
  or an object, and the other properties are carried along without being inspected.
  The order of the properties of an object plays no role in the store.
\<close>

datatype jsval =
    JUndefined
  | JNull
  | JBool bool
  | JStr string
  | JObj "string \<Rightarrow> jsval option"

type_synonym obj = "string \<Rightarrow> jsval option"

text \<open>\<open>o.k\<close> on an object: the value of the property, \<open>undefined\<close> when absent.\<close>

definition get_prop :: "obj \<Rightarrow> string \<Rightarrow> jsval" where
  "get_prop ob k = (case ob k of None \<Rightarrow> JUndefined | Some v \<Rightarrow> v)"

text \<open>
  \<open>v.k\<close> on a value that is neither \<open>undefined\<close> nor \<open>null\<close> (the store guards each
  such access): the property of an object; a boolean or a string has no property
  \<open>name\<close>, the only one read this way.
\<close>

definition member :: "jsval \<Rightarrow> string \<Rightarrow> jsval" where
  "member v k = (case v of JObj ob \<Rightarrow> get_prop ob k | _ \<Rightarrow> JUndefined)"

text \<open>\<open>v?.k\<close>: \<open>undefined\<close> on \<open>undefined\<close> and \<open>null\<close>, the member otherwise.\<close>

definition opt_member :: "jsval \<Rightarrow> string \<Rightarrow> jsval" where
  "opt_member v k = (case v of JUndefined \<Rightarrow> JUndefined | JNull \<Rightarrow> JUndefined | _ \<Rightarrow> member v k)"

text \<open>
  \<open>v === c\<close> for a string constant \<open>c\<close>: strict equality does not convert, so it
  holds exactly when \<open>v\<close> is that string.
\<close>

definition strict_eq_string :: "jsval \<Rightarrow> string \<Rightarrow> bool" where
  "strict_eq_string v c = (case v of JStr t \<Rightarrow> t = c | _ \<Rightarrow> False)"

text \<open>\<open>Boolean(v)\<close>, the test of \<open>if\<close>, \<open>!\<close>, \<open>&&\<close>, \<open>||\<close> and \<open>?:\<close>.\<close>

fun truthy :: "jsval \<Rightarrow> bool" where
  "truthy JUndefined = False"
| "truthy JNull = False"
| "truthy (JBool b) = b"
| "truthy (JStr s) = (s \<noteq> [])"
| "truthy (JObj ob) = True"

definition js_and :: "jsval \<Rightarrow> jsval \<Rightarrow> jsval" where
  "js_and a b = (if truthy a then b else a)"

definition js_or :: "jsval \<Rightarrow> jsval \<Rightarrow> jsval" where
  "js_or a b = (if truthy a then a else b)"

text \<open>
  The conversion to a string, as a template literal and a computed property key apply
  it. A plain object prints as \<open>[object Object]\<close>.
\<close>

fun js_to_string :: "jsval \<Rightarrow> string" where
  "js_to_string JUndefined = ''undefined''"
| "js_to_string JNull = ''null''"
| "js_to_string (JBool b) = (if b then ''true'' else ''false'')"
| "js_to_string (JStr s) = s"
| "js_to_string (JObj ob) = ''[object Object]''"

subsection \<open>Errors and the outcome of an action\<close>

text \<open>
  A thrown error has a name and a message. \<open>Error(m)\<close> builds one named \<open>Error\<close>;
  reading or setting a property of \<open>undefined\<close> throws a \<open>TypeError\<close>, whose
  message is the engine's (here that of V8, which names the property in quotes).
  \<open>error_to_string\<close> is \<open>Error.prototype.toString\<close>.
\<close>

datatype js_error = JsError (error_name: string) (error_message: string)

definition Error :: "jsval \<Rightarrow> js_error" where
  "Error m = JsError ''Error'' (case m of JUndefined \<Rightarrow> [] | _ \<Rightarrow> js_to_string m)"

definition TypeError :: "string \<Rightarrow> js_error" where
  "TypeError m = JsError ''TypeError'' m"

definition cannot_read :: "string \<Rightarrow> string" where
  "cannot_read k =
     ''Cannot read properties of undefined (reading '' @ [CHR 0x27] @ k @ [CHR 0x27] @ '')''"

definition cannot_set :: "string \<Rightarrow> string" where
  "cannot_set k =
     ''Cannot set properties of undefined (setting '' @ [CHR 0x27] @ k @ [CHR 0x27] @ '')''"

definition error_to_string :: "js_error \<Rightarrow> string" where
  "error_to_string e =
     (if error_name e = [] then error_message e
      else if error_message e = [] then error_name e
      else error_name e @ '': '' @ error_message e)"

subsection \<open>The state of the store\<close>

record IUsersState =
  initialized :: bool
  currentUserId :: jsval
  users :: "string \<Rightarrow> obj option"
  currentUserCloudInfo :: jsval

text \<open>
  \<open>users\<close> holds the own properties of the object \<open>this.users\<close>. The members that
  a JavaScript object inherits from \<open>Object.prototype\<close> (\<open>constructor\<close>,
  \<open>toString\<close> and the like) are not modelled: such a key reads as absent here, while
  the program finds a function there. The server issues the ids, and none is such a
  name; on those keys alone the getter \<open>currentUser\<close> and
  \<open>updateOtherUserSettings\<close> below differ from the program.
\<close>

definition initial_state :: IUsersState where
  "initial_state =
     \<lparr>initialized = False, currentUserId = JNull, users = Map.empty,
      currentUserCloudInfo = JNull\<rparr>"

text \<open>
  An action is asynchronous: it awaits one call of the REST client and then runs to its
  end without yielding. The answer of the client is an argument of the model
  (\<open>Inl e\<close>: the call failed with \<open>e\<close>; \<open>Inr r\<close>: it returned \<open>r\<close>), and the
  action returns how its promise settles (\<open>Inl e\<close>: rejected with \<open>e\<close>) together
  with the state of the store afterwards. The parameters an action only forwards to the
  client are not arguments of the model.
\<close>

type_synonym 'a api = "js_error + 'a"

type_synonym 'a outcome = "(js_error + 'a) \<times> IUsersState"

subsection \<open>Constants and collaborators that live outside this file\<close>

text \<open>
  Modelled from the spec: the constant \<open>ROLE.Owner\<close> of \<open>@/utils\<close> is not part of
  the sources at hand; the spec gives the owner role the name \<open>owner\<close>.
\<close>

definition ROLE_Owner :: string where
  "ROLE_Owner = ''owner''"

text \<open>
  Modelled from the spec: the analytics initializer (\<open>usePostHog\<close>), the cloud plan
  store, the settings store and the UI store are other stores. The spec describes their
  calls as side effects on those stores with no failure of their own; none of them
  touches the state of the users store, so each is the identity on it.
\<close>

definition posthog_init :: "jsval \<Rightarrow> IUsersState \<Rightarrow> IUsersState" where
  "posthog_init featureFlags s = s"

definition posthog_reset :: "IUsersState \<Rightarrow> IUsersState" where
  "posthog_reset s = s"

definition cloudPlan_reset :: "IUsersState \<Rightarrow> IUsersState" where
  "cloudPlan_reset s = s"

definition clearBannerStack :: "IUsersState \<Rightarrow> IUsersState" where
  "clearBannerStack s = s"

definition stopShowingSetupPage :: "IUsersState \<Rightarrow> IUsersState" where
  "stopShowingSetupPage s = s"

definition openModal :: "IUsersState \<Rightarrow> IUsersState" where
  "openModal s = s"

subsection \<open>The three predicates on a user\<close>

text \<open>
  \<open>Boolean(user && user.isPending && user.globalRole && user.globalRole.name === ROLE.Owner)\<close>;
  the argument is a user or \<open>null\<close> (\<open>None\<close>).
\<close>

definition isDefaultUser :: "obj option \<Rightarrow> bool" where
  "isDefaultUser user =
     (case user of
        None \<Rightarrow> False
      | Some u \<Rightarrow>
          truthy (js_and (js_and (get_prop u ''isPending'') (get_prop u ''globalRole''))
                    (JBool (strict_eq_string (member (get_prop u ''globalRole'') ''name'') ROLE_Owner))))"

definition isPendingUser :: "obj option \<Rightarrow> bool" where
  "isPendingUser user =
     (case user of None \<Rightarrow> False | Some u \<Rightarrow> truthy (get_prop u ''isPending''))"

definition isInstanceOwner :: "obj option \<Rightarrow> bool" where
  "isInstanceOwner user =
     (case user of
        None \<Rightarrow> False
      | Some u \<Rightarrow> strict_eq_string (opt_member (get_prop u ''globalRole'') ''name'') ROLE_Owner)"

subsection \<open>addUsers and deleteUserById\<close>

text \<open>
  The body of the \<open>forEach\<close> callback of \<open>addUsers\<close>, constant by constant:
  \<open>prevUser\<close>, \<open>updatedUser\<close>, then the constant \<open>user\<close> (\<open>mergedUser\<close> here,
  with the expression of its \<open>fullName\<close> on its own), then the write to \<open>this.users\<close>.
  \<open>this.users[userResponse.id] || {}\<close>: an entry of the mapping is an object, hence
  truthy, so the empty object stands in exactly when the key is absent. The test of the
  full name reads \<open>userResponse.firstName\<close>, its value reads \<open>updatedUser\<close>.
\<close>

definition prevUser :: "obj \<Rightarrow> IUsersState \<Rightarrow> obj" where
  "prevUser userResponse s =
     (case users s (js_to_string (get_prop userResponse ''id'')) of
        None \<Rightarrow> Map.empty
      | Some p \<Rightarrow> p)"

definition updatedUser :: "obj \<Rightarrow> obj \<Rightarrow> obj" where
  "updatedUser prev userResponse = prev ++ userResponse"

definition fullName :: "obj \<Rightarrow> obj \<Rightarrow> jsval" where
  "fullName userResponse updated =
     (if truthy (get_prop userResponse ''firstName'')
      then JStr (js_to_string (get_prop updated ''firstName'') @ '' '' @
                 js_to_string (js_or (get_prop updated ''lastName'') (JStr [])))
      else JUndefined)"

definition mergedUser :: "obj \<Rightarrow> obj \<Rightarrow> obj" where
  "mergedUser prev userResponse =
     (let updated = updatedUser prev userResponse
      in updated
           (''fullName'' \<mapsto> fullName userResponse updated,
            ''isDefaultUser'' \<mapsto> JBool (isDefaultUser (Some updated)),
            ''isPendingUser'' \<mapsto> JBool (isPendingUser (Some updated)),
            ''isOwner'' \<mapsto>
               JBool (strict_eq_string (opt_member (get_prop updated ''globalRole'') ''name'')
                        ROLE_Owner)))"

definition addUser :: "obj \<Rightarrow> IUsersState \<Rightarrow> IUsersState" where
  "addUser userResponse s =
     (let user = mergedUser (prevUser userResponse s) userResponse
      in s\<lparr>users := (users s)(js_to_string (get_prop user ''id'') \<mapsto> user)\<rparr>)"

definition addUsers :: "obj list \<Rightarrow> IUsersState \<Rightarrow> IUsersState" where
  "addUsers us s = fold addUser us s"

definition deleteUserById :: "string \<Rightarrow> IUsersState \<Rightarrow> IUsersState" where
  "deleteUserById userId s = s\<lparr>users := (users s)(userId := None)\<rparr>"

subsection \<open>The current user\<close>

text \<open>
  The getter \<open>this.currentUserId ? this.users[this.currentUserId] : null\<close>. \<open>None\<close>
  stands for \<open>null\<close> and for the \<open>undefined\<close> of a missing entry alike: every reader
  below only tests the result for truthiness.
\<close>

definition currentUser :: "IUsersState \<Rightarrow> obj option" where
  "currentUser s =
     (if truthy (currentUserId s) then users s (js_to_string (currentUserId s)) else None)"

definition setPersonalizationAnswers :: "jsval \<Rightarrow> IUsersState \<Rightarrow> IUsersState" where
  "setPersonalizationAnswers answers s =
     (case currentUser s of
        None \<Rightarrow> s
      | Some cu \<Rightarrow>
          s\<lparr>users := (users s)(js_to_string (get_prop cu ''id'') \<mapsto>
                 cu(''personalizationAnswers'' \<mapsto> answers))\<rparr>)"

subsection \<open>Logging in and out\<close>

definition loginWithCookie :: "obj option api \<Rightarrow> IUsersState \<Rightarrow> unit outcome" where
  "loginWithCookie api s =
     (case api of
        Inl e \<Rightarrow> (Inl e, s)
      | Inr None \<Rightarrow> (Inr (), s)
      | Inr (Some user) \<Rightarrow>
          (let s1 = addUsers [user] s;
               s2 = s1\<lparr>currentUserId := get_prop user ''id''\<rparr>;
               s3 = posthog_init (get_prop user ''featureFlags'') s2
           in (Inr (), s3)))"

definition loginWithCreds :: "obj option api \<Rightarrow> IUsersState \<Rightarrow> unit outcome" where
  "loginWithCreds api s =
     (case api of
        Inl e \<Rightarrow> (Inl e, s)
      | Inr None \<Rightarrow> (Inr (), s)
      | Inr (Some user) \<Rightarrow>
          (let s1 = addUsers [user] s;
               s2 = s1\<lparr>currentUserId := get_prop user ''id''\<rparr>;
               s3 = posthog_init (get_prop user ''featureFlags'') s2
           in (Inr (), s3)))"

text \<open>
  \<open>initialize\<close>: the guard, then the cookie login inside \<open>try\<close> with an empty
  \<open>catch\<close>; \<open>initialized\<close> is set only when the login did not throw.
\<close>

definition initialize :: "obj option api \<Rightarrow> IUsersState \<Rightarrow> unit outcome" where
  "initialize api s =
     (if initialized s then (Inr (), s)
      else (case loginWithCookie api s of
              (Inr _, s1) \<Rightarrow> (Inr (), s1\<lparr>initialized := True\<rparr>)
            | (Inl e, s1) \<Rightarrow> (Inr (), s1)))"

definition logout :: "unit api \<Rightarrow> IUsersState \<Rightarrow> unit outcome" where
  "logout api s =
     (case api of
        Inl e \<Rightarrow> (Inl e, s)
      | Inr _ \<Rightarrow>
          (let s1 = s\<lparr>currentUserId := JNull\<rparr>;
               s2 = cloudPlan_reset s1;
               s3 = posthog_reset s2;
               s4 = s3\<lparr>currentUserCloudInfo := JNull\<rparr>;
               s5 = clearBannerStack s4
           in (Inr (), s5)))"

definition createOwner :: "obj option api \<Rightarrow> IUsersState \<Rightarrow> unit outcome" where
  "createOwner api s =
     (case api of
        Inl e \<Rightarrow> (Inl e, s)
      | Inr None \<Rightarrow> (Inr (), s)
      | Inr (Some user) \<Rightarrow>
          (let s1 = addUsers [user] s;
               s2 = s1\<lparr>currentUserId := get_prop user ''id''\<rparr>;
               s3 = stopShowingSetupPage s2;
               s4 = posthog_init (get_prop user ''featureFlags'') s3
           in (Inr (), s4)))"

definition acceptInvitation :: "obj option api \<Rightarrow> IUsersState \<Rightarrow> unit outcome" where
  "acceptInvitation api s =
     (case api of
        Inl e \<Rightarrow> (Inl e, s)
      | Inr None \<Rightarrow> (Inr (), s)
      | Inr (Some user) \<Rightarrow>
          (let s1 = addUsers [user] s;
               s2 = s1\<lparr>currentUserId := get_prop user ''id''\<rparr>;
               s3 = posthog_init (get_prop user ''featureFlags'') s2
           in (Inr (), s3)))"

subsection \<open>Actions that only call the client\<close>

definition validateSignupToken :: "jsval api \<Rightarrow> IUsersState \<Rightarrow> jsval outcome" where
  "validateSignupToken api s = (api, s)"

definition sendForgotPasswordEmail :: "unit api \<Rightarrow> IUsersState \<Rightarrow> unit outcome" where
  "sendForgotPasswordEmail api s = (api, s)"

definition validatePasswordToken :: "unit api \<Rightarrow> IUsersState \<Rightarrow> unit outcome" where
  "validatePasswordToken api s = (api, s)"

definition changePassword :: "unit api \<Rightarrow> IUsersState \<Rightarrow> unit outcome" where
  "changePassword api s = (api, s)"

definition updateCurrentUserPassword :: "unit api \<Rightarrow> IUsersState \<Rightarrow> unit outcome" where
  "updateCurrentUserPassword api s = (api, s)"

definition getUserPasswordResetLink :: "jsval api \<Rightarrow> IUsersState \<Rightarrow> jsval outcome" where
  "getUserPasswordResetLink api s = (api, s)"

definition getMfaQR :: "jsval api \<Rightarrow> IUsersState \<Rightarrow> jsval outcome" where
  "getMfaQR api s = (api, s)"

definition verifyMfaToken :: "unit api \<Rightarrow> IUsersState \<Rightarrow> unit outcome" where
  "verifyMfaToken api s = (api, s)"

definition confirmEmail :: "unit api \<Rightarrow> IUsersState \<Rightarrow> unit outcome" where
  "confirmEmail api s = (api, s)"

subsection \<open>Updating, deleting and fetching users\<close>

definition updateUser :: "obj api \<Rightarrow> IUsersState \<Rightarrow> unit outcome" where
  "updateUser api s =
     (case api of
        Inl e \<Rightarrow> (Inl e, s)
      | Inr user \<Rightarrow> (Inr (), addUsers [user] s))"

text \<open>
  \<open>this.currentUser.settings = updatedSettings\<close> writes into the object that the
  mapping holds under the current id; \<open>this.currentUser\<close> is then read again and
  merged.
\<close>

definition updateUserSettings :: "jsval api \<Rightarrow> IUsersState \<Rightarrow> unit outcome" where
  "updateUserSettings api s =
     (case api of
        Inl e \<Rightarrow> (Inl e, s)
      | Inr updatedSettings \<Rightarrow>
          (case currentUser s of
             None \<Rightarrow> (Inr (), s)
           | Some cu \<Rightarrow>
               (let cu1 = cu(''settings'' \<mapsto> updatedSettings);
                    s1 = s\<lparr>users := (users s)(js_to_string (currentUserId s) \<mapsto> cu1)\<rparr>
                in (Inr (), addUsers [cu1] s1))))"

text \<open>
  \<open>this.users[userId].settings = updatedSettings\<close> throws a \<open>TypeError\<close> when the
  mapping has no entry for \<open>userId\<close>.
\<close>

definition updateOtherUserSettings ::
  "string \<Rightarrow> jsval api \<Rightarrow> IUsersState \<Rightarrow> unit outcome" where
  "updateOtherUserSettings userId api s =
     (case api of
        Inl e \<Rightarrow> (Inl e, s)
      | Inr updatedSettings \<Rightarrow>
          (case users s userId of
             None \<Rightarrow> (Inl (TypeError (cannot_set ''settings'')), s)
           | Some target \<Rightarrow>
               (let target1 = target(''settings'' \<mapsto> updatedSettings);
                    s1 = s\<lparr>users := (users s)(userId \<mapsto> target1)\<rparr>
                in (Inr (), addUsers [target1] s1))))"

definition deleteUser :: "string \<Rightarrow> unit api \<Rightarrow> IUsersState \<Rightarrow> unit outcome" where
  "deleteUser userId api s =
     (case api of
        Inl e \<Rightarrow> (Inl e, s)
      | Inr _ \<Rightarrow> (Inr (), deleteUserById userId s))"

definition fetchUsers :: "obj list api \<Rightarrow> IUsersState \<Rightarrow> unit outcome" where
  "fetchUsers api s =
     (case api of
        Inl e \<Rightarrow> (Inl e, s)
      | Inr us \<Rightarrow> (Inr (), addUsers us s))"

definition submitPersonalizationSurvey ::
  "jsval \<Rightarrow> unit api \<Rightarrow> IUsersState \<Rightarrow> unit outcome" where
  "submitPersonalizationSurvey results api s =
     (case api of
        Inl e \<Rightarrow> (Inl e, s)
      | Inr _ \<Rightarrow> (Inr (), setPersonalizationAnswers results s))"

text \<open>
  \<open>showPersonalizationSurvey\<close> reads a flag of the settings store (an argument here)
  and may open a modal of the UI store.
\<close>

definition showPersonalizationSurvey :: "bool \<Rightarrow> IUsersState \<Rightarrow> unit outcome" where
  "showPersonalizationSurvey surveyEnabled s =
     (case currentUser s of
        None \<Rightarrow> (Inr (), s)
      | Some cu \<Rightarrow>
          (if surveyEnabled \<and> \<not> truthy (get_prop cu ''personalizationAnswers'')
           then (Inr (), openModal s)
           else (Inr (), s)))"

subsection \<open>Multi-factor authentication and the cloud account\<close>

definition enableMfa :: "unit api \<Rightarrow> IUsersState \<Rightarrow> unit outcome" where
  "enableMfa api s =
     (case api of
        Inl e \<Rightarrow> (Inl e, s)
      | Inr _ \<Rightarrow>
          (case currentUser s of
             None \<Rightarrow> (Inr (), s)
           | Some cu \<Rightarrow>
               (Inr (), s\<lparr>users := (users s)(js_to_string (currentUserId s) \<mapsto>
                              cu(''mfaEnabled'' \<mapsto> JBool True))\<rparr>)))"

definition disabledMfa :: "unit api \<Rightarrow> IUsersState \<Rightarrow> unit outcome" where
  "disabledMfa api s =
     (case api of
        Inl e \<Rightarrow> (Inl e, s)
      | Inr _ \<Rightarrow>
          (case currentUser s of
             None \<Rightarrow> (Inr (), s)
           | Some cu \<Rightarrow>
               (Inr (), s\<lparr>users := (users s)(js_to_string (currentUserId s) \<mapsto>
                              cu(''mfaEnabled'' \<mapsto> JBool False))\<rparr>)))"

text \<open>\<open>catch (error) { throw new Error(error) }\<close>: the message is the caught error, printed.\<close>

definition fetchUserCloudAccount :: "jsval api \<Rightarrow> IUsersState \<Rightarrow> unit outcome" where
  "fetchUserCloudAccount api s =
     (case api of
        Inl e \<Rightarrow> (Inl (Error (JStr (error_to_string e))), s)
      | Inr cloudUser \<Rightarrow> (Inr (), s\<lparr>currentUserCloudInfo := cloudUser\<rparr>))"

subsection \<open>Invitations\<close>

text \<open>
  One entry of the answer of the invitation endpoint: the invited \<open>user\<close> (with its
  \<open>emailSent\<close> flag) and the optional \<open>error\<close> (\<open>undefined\<close> when absent).
\<close>

record IInviteResponse =
  user :: obj
  error :: jsval

text \<open>\<open>users.map(({ user }) => ({ isPending: true, ...user }))\<close>, then the merge.\<close>

definition inviteUsers ::
  "IInviteResponse list api \<Rightarrow> IUsersState \<Rightarrow> IInviteResponse list outcome" where
  "inviteUsers api s =
     (case api of
        Inl e \<Rightarrow> (Inl e, s)
      | Inr rs \<Rightarrow>
          (Inr rs, addUsers (map (\<lambda>r. [''isPending'' \<mapsto> JBool True] ++ user r) rs) s))"

text \<open>
  \<open>invitationResponse[0].user\<close> throws a \<open>TypeError\<close> when the answer is the empty
  array.
\<close>

definition reinviteUser :: "IInviteResponse list api \<Rightarrow> IUsersState \<Rightarrow> unit outcome" where
  "reinviteUser api s =
     (case api of
        Inl e \<Rightarrow> (Inl e, s)
      | Inr invitationResponse \<Rightarrow>
          (case invitationResponse of
             [] \<Rightarrow> (Inl (TypeError (cannot_read ''user'')), s)
           | r # _ \<Rightarrow>
               (if \<not> truthy (get_prop (user r) ''emailSent'')
                then (Inl (Error (error r)), s)
                else (Inr (), s))))"

subsection \<open>Calls of the store\<close>

text \<open>
  Every action of the store as one call, with the answer of the client it meets, and
  the state it leaves.
\<close>

datatype store_call =
    Initialize "obj option api"
  | AddUsers "obj list"
  | DeleteUserById string
  | SetPersonalizationAnswers jsval
  | LoginWithCookie "obj option api"
  | LoginWithCreds "obj option api"
  | Logout "unit api"
  | CreateOwner "obj option api"
  | ValidateSignupToken "jsval api"
  | AcceptInvitation "obj option api"
  | SendForgotPasswordEmail "unit api"
  | ValidatePasswordToken "unit api"
  | ChangePassword "unit api"
  | UpdateUser "obj api"
  | UpdateUserSettings "jsval api"
  | UpdateOtherUserSettings string "jsval api"
  | UpdateCurrentUserPassword "unit api"
  | DeleteUser string "unit api"
  | FetchUsers "obj list api"
  | InviteUsers "IInviteResponse list api"
  | ReinviteUser "IInviteResponse list api"
  | GetUserPasswordResetLink "jsval api"
  | SubmitPersonalizationSurvey jsval "unit api"
  | ShowPersonalizationSurvey bool
  | GetMfaQR "jsval api"
  | VerifyMfaToken "unit api"
  | EnableMfa "unit api"
  | DisabledMfa "unit api"
  | FetchUserCloudAccount "jsval api"
  | ConfirmEmail "unit api"

fun perform :: "store_call \<Rightarrow> IUsersState \<Rightarrow> IUsersState" where
  "perform (Initialize api) s = snd (initialize api s)"
| "perform (AddUsers us) s = addUsers us s"
| "perform (DeleteUserById userId) s = deleteUserById userId s"
| "perform (SetPersonalizationAnswers answers) s = setPersonalizationAnswers answers s"
| "perform (LoginWithCookie api) s = snd (loginWithCookie api s)"
| "perform (LoginWithCreds api) s = snd (loginWithCreds api s)"
| "perform (Logout api) s = snd (logout api s)"
| "perform (CreateOwner api) s = snd (createOwner api s)"
| "perform (ValidateSignupToken api) s = snd (validateSignupToken api s)"
| "perform (AcceptInvitation api) s = snd (acceptInvitation api s)"
| "perform (SendForgotPasswordEmail api) s = snd (sendForgotPasswordEmail api s)"
| "perform (ValidatePasswordToken api) s = snd (validatePasswordToken api s)"
| "perform (ChangePassword api) s = snd (changePassword api s)"
| "perform (UpdateUser api) s = snd (updateUser api s)"
| "perform (UpdateUserSettings api) s = snd (updateUserSettings api s)"
| "perform (UpdateOtherUserSettings userId api) s = snd (updateOtherUserSettings userId api s)"
| "perform (UpdateCurrentUserPassword api) s = snd (updateCurrentUserPassword api s)"
| "perform (DeleteUser userId api) s = snd (deleteUser userId api s)"
| "perform (FetchUsers api) s = snd (fetchUsers api s)"
| "perform (InviteUsers api) s = snd (inviteUsers api s)"
| "perform (ReinviteUser api) s = snd (reinviteUser api s)"
| "perform (GetUserPasswordResetLink api) s = snd (getUserPasswordResetLink api s)"
| "perform (SubmitPersonalizationSurvey results api) s =
     snd (submitPersonalizationSurvey results api s)"
| "perform (ShowPersonalizationSurvey surveyEnabled) s =
     snd (showPersonalizationSurvey surveyEnabled s)"
| "perform (GetMfaQR api) s = snd (getMfaQR api s)"
| "perform (VerifyMfaToken api) s = snd (verifyMfaToken api s)"
| "perform (EnableMfa api) s = snd (enableMfa api s)"
| "perform (DisabledMfa api) s = snd (disabledMfa api s)"
| "perform (FetchUserCloudAccount api) s = snd (fetchUserCloudAccount api s)"
| "perform (ConfirmEmail api) s = snd (confirmEmail api s)"

subsection \<open>Auxiliary notions for the statements\<close>

text \<open>The four properties that \<open>addUsers\<close> computes itself and always writes.\<close>

definition derived_keys :: "string set" where
  "derived_keys = {''fullName'', ''isDefaultUser'', ''isPendingUser'', ''isOwner''}"

text \<open>The property \<open>k\<close> of the record stored under \<open>userId\<close>, if both exist.\<close>

definition stored_prop :: "IUsersState \<Rightarrow> string \<Rightarrow> string \<Rightarrow> jsval option" where
  "stored_prop s userId k = (case users s userId of None \<Rightarrow> None | Some r \<Rightarrow> r k)"




subsection \<open>Example data\<close>

text \<open>
  Responses of the client: a full one and one with settings only for the same user, the
  pending owner of the spec's end-to-end example, and one with a first name only.
\<close>

definition ex_user :: obj where
  "ex_user =
     [''id'' \<mapsto> JStr ''1'', ''firstName'' \<mapsto> JStr ''A'', ''lastName'' \<mapsto> JStr ''B'',
      ''email'' \<mapsto> JStr ''a@x.com'']"

definition ex_settings_update :: obj where
  "ex_settings_update = [''id'' \<mapsto> JStr ''1'', ''settings'' \<mapsto> JObj Map.empty]"


definition ex_first_name_only :: obj where
  "ex_first_name_only = [''id'' \<mapsto> JStr ''1'', ''firstName'' \<mapsto> JStr ''A'']"

text \<open>Two partial updates of the user \<open>1\<close>: a new first name, a new last name.\<close>

definition ex_first_name_update :: obj where
  "ex_first_name_update = [''id'' \<mapsto> JStr ''1'', ''firstName'' \<mapsto> JStr ''C'']"

definition ex_last_name_update :: obj where
  "ex_last_name_update = [''id'' \<mapsto> JStr ''1'', ''lastName'' \<mapsto> JStr ''C'']"

text \<open>An entry of an invitation answer whose e-mail was sent or not, with the error \<open>bounced\<close>.\<close>

definition ex_invite :: "bool \<Rightarrow> IInviteResponse" where
  "ex_invite sent =
     \<lparr>user = [''id'' \<mapsto> JStr ''2'', ''email'' \<mapsto> JStr ''a@x.com'', ''emailSent'' \<mapsto> JBool sent],
      error = JStr ''bounced''\<rparr>"

text \<open>The store after the cookie login of \<open>ex_user\<close>.\<close>

definition ex_logged_in :: IUsersState where
  "ex_logged_in = snd (loginWithCookie (Inr (Some ex_user)) initial_state)"

section \<open>Properties of the merge\<close>

subsection \<open>Basic facts\<close>

lemma truthy_js_and [simp]: "truthy (js_and a b) = (truthy a \<and> truthy b)"
  by (simp add: js_and_def)

lemma strict_eq_string_iff [simp]: "strict_eq_string v c = (v = JStr c)"
  by (cases v) (auto simp: strict_eq_string_def)

lemmas eval_defs =
  addUsers_def addUser_def prevUser_def mergedUser_def updatedUser_def fullName_def
  isDefaultUser_def isPendingUser_def isInstanceOwner_def get_prop_def js_or_def
  opt_member_def member_def stored_prop_def initial_state_def Let_def ROLE_Owner_def

lemmas session_defs =
  ex_logged_in_def loginWithCookie_def updateUserSettings_def currentUser_def posthog_init_def

lemma raw_keys:
  "''id'' \<notin> derived_keys" "''firstName'' \<notin> derived_keys" "''lastName'' \<notin> derived_keys"
  "''isPending'' \<notin> derived_keys" "''globalRole'' \<notin> derived_keys"
  by (simp_all add: derived_keys_def)

lemma mergedUser_raw: "k \<notin> derived_keys \<Longrightarrow> mergedUser p u k = (p ++ u) k"
  by (auto simp: mergedUser_def updatedUser_def Let_def derived_keys_def)

lemma get_prop_mergedUser_raw:
  "k \<notin> derived_keys \<Longrightarrow> get_prop (mergedUser p u) k = get_prop (p ++ u) k"
  by (simp add: get_prop_def mergedUser_raw)

lemma mergedUser_derived:
  "mergedUser p u ''fullName'' = Some (fullName u (p ++ u))"
  "mergedUser p u ''isDefaultUser'' = Some (JBool (isDefaultUser (Some (p ++ u))))"
  "mergedUser p u ''isPendingUser'' = Some (JBool (isPendingUser (Some (p ++ u))))"
  "mergedUser p u ''isOwner'' = Some (JBool (isInstanceOwner (Some (p ++ u))))"
  by (simp_all add: mergedUser_def updatedUser_def Let_def isInstanceOwner_def)

lemma addUsers_single: "addUsers [u] s = addUser u s"
  by (simp add: addUsers_def)

lemma addUsers_append: "addUsers (us @ [u]) s = addUsers [u] (addUsers us s)"
  by (simp add: addUsers_def)

lemma addUser_users:
  "users (addUser u s) =
     (users s)(js_to_string (get_prop (prevUser u s ++ u) ''id'') \<mapsto>
                 mergedUser (prevUser u s) u)"
  by (simp add: addUser_def Let_def get_prop_mergedUser_raw raw_keys)

lemma addUser_stored:
  assumes "u ''id'' = Some idv"
  shows "users (addUser u s) (js_to_string idv) = Some (mergedUser (prevUser u s) u)"
  using assms by (simp add: addUser_users get_prop_def)

lemma prevUser_known:
  assumes "u ''id'' = Some idv" and "users s (js_to_string idv) = Some prev"
  shows "prevUser u s = prev"
  using assms by (simp add: prevUser_def get_prop_def)

lemma addUser_frame:
  "initialized (addUser u s) = initialized s"
  "currentUserId (addUser u s) = currentUserId s"
  "currentUserCloudInfo (addUser u s) = currentUserCloudInfo s"
  by (simp_all add: addUser_def Let_def)

lemma addUsers_keeps:
  "initialized (addUsers us s) = initialized s"
  "currentUserId (addUsers us s) = currentUserId s"
  "currentUserCloudInfo (addUsers us s) = currentUserCloudInfo s"
  unfolding addUsers_def by (induction us arbitrary: s) (simp_all add: addUser_frame)

text \<open>
  Overlaying the response once more on the record it produced changes no property that
  the merge reads, so merging again gives the same record.
\<close>

lemma get_prop_overlay_again:
  "k \<notin> derived_keys \<Longrightarrow> get_prop (mergedUser p u ++ u) k = get_prop (p ++ u) k"
  by (auto simp: get_prop_def map_add_def mergedUser_raw split: option.splits)

lemma mergedUser_idem: "mergedUser (mergedUser p u) u = mergedUser p u"
proof
  fix k
  have raw: "(mergedUser p u ++ u) k = (p ++ u) k" if "k \<notin> derived_keys"
    using that by (auto simp: map_add_def mergedUser_raw split: option.splits)
  have recomputed:
    "fullName u (mergedUser p u ++ u) = fullName u (p ++ u)"
    "isDefaultUser (Some (mergedUser p u ++ u)) = isDefaultUser (Some (p ++ u))"
    "isPendingUser (Some (mergedUser p u ++ u)) = isPendingUser (Some (p ++ u))"
    "isInstanceOwner (Some (mergedUser p u ++ u)) = isInstanceOwner (Some (p ++ u))"
    by (simp_all add: fullName_def isDefaultUser_def isPendingUser_def isInstanceOwner_def
        get_prop_overlay_again raw_keys)
  show "mergedUser (mergedUser p u) u k = mergedUser p u k"
  proof (cases "k \<in> derived_keys")
    case True
    then show ?thesis
      by (auto simp: derived_keys_def mergedUser_derived recomputed)
  next
    case False
    then show ?thesis by (simp add: mergedUser_raw raw)
  qed
qed






lemma addUser_keys_id: "js_to_string (get_prop u ''id'') \<in> dom (users (addUser u s))"
proof (cases "users s (js_to_string (get_prop u ''id''))")
  case None
  then have "prevUser u s = Map.empty" by (simp add: prevUser_def)
  then show ?thesis by (simp add: addUser_users)
next
  case (Some p)
  then show ?thesis by (auto simp: addUser_users)
qed

text \<open>Every action but \<open>initialize\<close> leaves \<open>initialized\<close> alone.\<close>

lemma setPersonalizationAnswers_initialized:
  "initialized (setPersonalizationAnswers a s) = initialized s"
  by (simp add: setPersonalizationAnswers_def split: option.splits)

lemma login_initialized:
  "initialized (snd (loginWithCookie api s)) = initialized s"
  "initialized (snd (loginWithCreds api s)) = initialized s"
  "initialized (snd (createOwner api s)) = initialized s"
  "initialized (snd (acceptInvitation api s)) = initialized s"
  by (simp_all add: loginWithCookie_def loginWithCreds_def createOwner_def acceptInvitation_def
      posthog_init_def stopShowingSetupPage_def Let_def addUsers_keeps
      split: sum.splits option.splits)

lemma perform_initialized:
  "\<not> (\<exists>api. c = Initialize api) \<Longrightarrow> initialized (perform c s) = initialized s"
  by (cases c)
    (simp_all add: login_initialized setPersonalizationAnswers_initialized addUsers_keeps
      deleteUserById_def logout_def cloudPlan_reset_def posthog_reset_def clearBannerStack_def
      validateSignupToken_def sendForgotPasswordEmail_def validatePasswordToken_def
      changePassword_def updateUser_def updateUserSettings_def updateOtherUserSettings_def
      updateCurrentUserPassword_def deleteUser_def fetchUsers_def inviteUsers_def
      reinviteUser_def getUserPasswordResetLink_def submitPersonalizationSurvey_def
      showPersonalizationSurvey_def openModal_def getMfaQR_def verifyMfaToken_def enableMfa_def
      disabledMfa_def fetchUserCloudAccount_def confirmEmail_def Let_def
      split: sum.splits option.splits list.splits)

lemma initialize_cases:
  "initialize api s =
     (if initialized s then (Inr (), s)
      else case api of
             Inl e \<Rightarrow> (Inr (), s)
           | Inr r \<Rightarrow> (Inr (), (snd (loginWithCookie (Inr r) s))\<lparr>initialized := True\<rparr>))"
  by (simp add: initialize_def loginWithCookie_def Let_def split: sum.splits option.splits)

lemma perform_keeps_initialized: "initialized s \<Longrightarrow> initialized (perform c s)"
  by (cases "\<exists>api. c = Initialize api") (auto simp: perform_initialized initialize_def)

lemma fold_perform_keeps_initialized: "initialized s \<Longrightarrow> initialized (fold perform cs s)"
  by (induction cs arbitrary: s) (simp_all add: perform_keeps_initialized)

subsection \<open>The claims about addUsers\<close>

text \<open>
  What the overlay keeps. When the id of the response already keys a record, every
  property of the stored record that the response does not carry, other than the four
  that \<open>addUsers\<close> computes itself, keeps its value, and every such property that the
  response carries takes the value of the response. The three booleans are computed
  anew from the merged record, so a response without \<open>isPending\<close> and
  \<open>globalRole\<close> leaves them as the stored raw properties determine them.
\<close>

lemma addUsers_keeps_raw_properties:
  assumes "u ''id'' = Some idv" and "users s (js_to_string idv) = Some prev"
  shows "\<exists>r. users (addUsers [u] s) (js_to_string idv) = Some r \<and>
           (\<forall>k. k \<notin> dom u \<and> k \<notin> derived_keys \<longrightarrow> r k = prev k) \<and>
           (\<forall>k. k \<in> dom u \<and> k \<notin> derived_keys \<longrightarrow> r k = u k) \<and>
           r ''isDefaultUser'' = Some (JBool (isDefaultUser (Some (prev ++ u)))) \<and>
           r ''isPendingUser'' = Some (JBool (isPendingUser (Some (prev ++ u)))) \<and>
           r ''isOwner'' = Some (JBool (isInstanceOwner (Some (prev ++ u)))) \<and>
           (''isPending'' \<notin> dom u \<and> ''globalRole'' \<notin> dom u \<longrightarrow>
              r ''isDefaultUser'' = Some (JBool (isDefaultUser (Some prev))) \<and>
              r ''isPendingUser'' = Some (JBool (isPendingUser (Some prev))) \<and>
              r ''isOwner'' = Some (JBool (isInstanceOwner (Some prev))))"
proof -
  let ?r = "mergedUser prev u"
  have stored: "users (addUsers [u] s) (js_to_string idv) = Some ?r"
    using assms by (simp add: addUsers_single addUser_stored prevUser_known)
  have frame: "\<forall>k. k \<notin> dom u \<and> k \<notin> derived_keys \<longrightarrow> ?r k = prev k"
    by (auto simp: mergedUser_raw map_add_def split: option.splits)
  have new: "\<forall>k. k \<in> dom u \<and> k \<notin> derived_keys \<longrightarrow> ?r k = u k"
    by (auto simp: mergedUser_raw map_add_def split: option.splits)
  have keep: "get_prop (prev ++ u) k = get_prop prev k" if "k \<notin> dom u" for k
    using that by (auto simp: get_prop_def map_add_def split: option.splits)
  have flags:
    "?r ''isDefaultUser'' = Some (JBool (isDefaultUser (Some (prev ++ u))))"
    "?r ''isPendingUser'' = Some (JBool (isPendingUser (Some (prev ++ u))))"
    "?r ''isOwner'' = Some (JBool (isInstanceOwner (Some (prev ++ u))))"
    by (simp_all add: mergedUser_derived)
  have same:
    "isDefaultUser (Some (prev ++ u)) = isDefaultUser (Some prev)"
    "isPendingUser (Some (prev ++ u)) = isPendingUser (Some prev)"
    "isInstanceOwner (Some (prev ++ u)) = isInstanceOwner (Some prev)"
    if "''isPending'' \<notin> dom u" "''globalRole'' \<notin> dom u"
    using that by (simp_all add: isDefaultUser_def isPendingUser_def isInstanceOwner_def keep)
  show ?thesis
    using stored frame new flags same by (intro exI [of _ ?r]) simp
qed

text \<open>
  C1. The claim: a merge keeps every property that the response does not carry, and a
  settings-only update leaves the computed \<open>fullName\<close> in line with the preserved
  names. The code at such an update: the stored record has the full name \<open>A B\<close>; the
  response carries neither \<open>fullName\<close> nor a name; after \<open>addUsers\<close> the first name
  \<open>A\<close>, the last name \<open>B\<close> and the e-mail address are still there, and
  \<open>fullName\<close> is \<open>undefined\<close>, because its test reads the first name of the
  response while its value and the three booleans read the merged record. The action
  \<open>updateUserSettings\<close> of the same store, which merges the whole current user,
  keeps the full name \<open>A B\<close>.
\<close>

theorem addUsers_settings_only_update:
  "ex_settings_update ''fullName'' = None \<and>
   stored_prop (addUsers [ex_user] initial_state) ''1'' ''fullName'' = Some (JStr ''A B'') \<and>
   stored_prop (addUsers [ex_settings_update] (addUsers [ex_user] initial_state)) ''1'' ''firstName''
     = Some (JStr ''A'') \<and>
   stored_prop (addUsers [ex_settings_update] (addUsers [ex_user] initial_state)) ''1'' ''lastName''
     = Some (JStr ''B'') \<and>
   stored_prop (addUsers [ex_settings_update] (addUsers [ex_user] initial_state)) ''1'' ''email''
     = Some (JStr ''a@x.com'') \<and>
   stored_prop (addUsers [ex_settings_update] (addUsers [ex_user] initial_state)) ''1'' ''fullName''
     = Some JUndefined \<and>
   stored_prop (snd (updateUserSettings (Inr (JObj Map.empty)) ex_logged_in)) ''1'' ''firstName''
     = Some (JStr ''A'') \<and>
   stored_prop (snd (updateUserSettings (Inr (JObj Map.empty)) ex_logged_in)) ''1'' ''fullName''
     = Some (JStr ''A B'')"
  by (simp add: eval_defs session_defs ex_user_def ex_settings_update_def)

text \<open>
  C2. Merging the same response twice in succession leaves the store exactly as merging
  it once does: the same mapping, hence the same record, property by property.
\<close>

theorem addUsers_idempotent: "addUsers [u] (addUsers [u] s) = addUsers [u] s"
proof -
  let ?kin = "js_to_string (get_prop u ''id'')"
  let ?usr = "mergedUser (prevUser u s) u"
  let ?kout = "js_to_string (get_prop ?usr ''id'')"
  let ?s1 = "addUser u s"
  have s1: "?s1 = s\<lparr>users := (users s)(?kout \<mapsto> ?usr)\<rparr>"
    by (simp add: addUser_def Let_def)
  have "mergedUser (prevUser u ?s1) u = ?usr"
  proof (cases "?kout = ?kin")
    case True
    then have "prevUser u ?s1 = ?usr" by (simp add: s1 prevUser_def)
    then show ?thesis by (simp add: mergedUser_idem)
  next
    case False
    then have "prevUser u ?s1 = prevUser u s" by (simp add: s1 prevUser_def)
    then show ?thesis by simp
  qed
  then have "addUser u ?s1 = ?s1"
    by (simp add: addUser_def [of u "addUser u s"] Let_def) (simp add: s1)
  then show ?thesis by (simp add: addUsers_def)
qed

text \<open>
  Where the code and the claim about \<open>fullName\<close> agree. For a response with an
  \<open>id\<close>, the stored record \<open>r\<close> has the merged names. When the response itself
  carries a first name (a non-empty string), it is the first name of \<open>r\<close>, and
  \<open>fullName\<close> is that first name, a space and the last name of \<open>r\<close>, or nothing
  for the last name when \<open>r\<close> has none. When \<open>r\<close> has no first name,
  \<open>fullName\<close> is \<open>undefined\<close>, whatever the last name.
\<close>

lemma addUsers_fullName_agreement:
  assumes "u ''id'' = Some idv"
  shows "\<exists>r. users (addUsers [u] s) (js_to_string idv) = Some r \<and>
           r ''firstName'' = (prevUser u s ++ u) ''firstName'' \<and>
           r ''lastName'' = (prevUser u s ++ u) ''lastName'' \<and>
           (truthy (get_prop u ''firstName'') \<longrightarrow>
              r ''firstName'' = u ''firstName'' \<and>
              r ''fullName'' =
                Some (JStr (js_to_string (get_prop r ''firstName'') @ '' '' @
                            (if truthy (get_prop r ''lastName'')
                             then js_to_string (get_prop r ''lastName'') else [])))) \<and>
           (\<not> truthy (get_prop r ''firstName'') \<longrightarrow> r ''fullName'' = Some JUndefined)"
proof -
  let ?r = "mergedUser (prevUser u s) u"
  have stored: "users (addUsers [u] s) (js_to_string idv) = Some ?r"
    using assms by (simp add: addUsers_single addUser_stored)
  have raw: "?r ''firstName'' = (prevUser u s ++ u) ''firstName''"
    "?r ''lastName'' = (prevUser u s ++ u) ''lastName''"
    by (simp_all add: mergedUser_raw raw_keys)
  have present: "(prevUser u s ++ u) ''firstName'' = u ''firstName''"
    if "truthy (get_prop u ''firstName'')"
    using that by (auto simp: get_prop_def map_add_def split: option.splits)
  have name: "?r ''fullName'' = Some (fullName u (prevUser u s ++ u))"
    by (simp add: mergedUser_derived)
  have props: "get_prop ?r ''firstName'' = get_prop (prevUser u s ++ u) ''firstName''"
    "get_prop ?r ''lastName'' = get_prop (prevUser u s ++ u) ''lastName''"
    by (simp_all add: get_prop_mergedUser_raw raw_keys)
  have absent: "\<not> truthy (get_prop u ''firstName'')"
    if "\<not> truthy (get_prop (prevUser u s ++ u) ''firstName'')"
    using that by (auto simp: get_prop_def map_add_def split: option.splits)
  show ?thesis
    using stored raw present name props absent
    by (intro exI [of _ ?r]) (auto simp: fullName_def js_or_def)
qed

text \<open>
  C3. The claim: after a merge, a record with a first name has the full name made of
  its merged first name, a space and its merged last name. The code: on the empty store
  the response \<open>{id: "1", firstName: "A"}\<close> gives \<open>A \<close>, as the spec's example says,
  and after the user \<open>A B\<close> an update of the first name to \<open>C\<close> gives \<open>C B\<close>,
  with the stored last name; but an update of the last name to \<open>C\<close> leaves the first
  name \<open>A\<close>, stores the last name \<open>C\<close> and sets \<open>fullName\<close> to \<open>undefined\<close>
  instead of \<open>A C\<close>. The test of the full name reads the response where its value
  reads the merged record.
\<close>

theorem addUsers_fullName_gate:
  "stored_prop (addUsers [ex_first_name_only] initial_state) ''1'' ''fullName''
     = Some (JStr ''A '') \<and>
   stored_prop (addUsers [ex_first_name_update] (addUsers [ex_user] initial_state)) ''1''
     ''firstName'' = Some (JStr ''C'') \<and>
   stored_prop (addUsers [ex_first_name_update] (addUsers [ex_user] initial_state)) ''1''
     ''lastName'' = Some (JStr ''B'') \<and>
   stored_prop (addUsers [ex_first_name_update] (addUsers [ex_user] initial_state)) ''1''
     ''fullName'' = Some (JStr ''C B'') \<and>
   stored_prop (addUsers [ex_last_name_update] (addUsers [ex_user] initial_state)) ''1''
     ''firstName'' = Some (JStr ''A'') \<and>
   stored_prop (addUsers [ex_last_name_update] (addUsers [ex_user] initial_state)) ''1''
     ''lastName'' = Some (JStr ''C'') \<and>
   stored_prop (addUsers [ex_last_name_update] (addUsers [ex_user] initial_state)) ''1''
     ''fullName'' = Some JUndefined"
  by (simp add: eval_defs ex_user_def ex_first_name_only_def ex_first_name_update_def
      ex_last_name_update_def)



text \<open>
  C10. Whatever the sequence of responses, \<open>addUsers\<close> changes the \<open>users\<close> mapping
  only: \<open>currentUserId\<close>, \<open>currentUserCloudInfo\<close> and \<open>initialized\<close> are as before.
\<close>

theorem addUsers_frame:
  "currentUserId (addUsers us s) = currentUserId s \<and>
   currentUserCloudInfo (addUsers us s) = currentUserCloudInfo s \<and>
   initialized (addUsers us s) = initialized s"
  by (simp add: addUsers_keeps)


section \<open>Properties of the session\<close>

text \<open>
  C5. Each of \<open>loginWithCookie\<close>, \<open>loginWithCreds\<close>, \<open>createOwner\<close> and
  \<open>acceptInvitation\<close> assigns \<open>currentUserId\<close> only when the client answers with a
  user, and then to the state that \<open>addUsers\<close> has left: at that moment, and at the end
  of the action, the assigned id keys the \<open>users\<close> mapping. On an empty answer or a
  failure nothing is assigned.
\<close>

theorem currentUserId_keys_users:
  assumes "act = loginWithCookie \<or> act = loginWithCreds \<or> act = createOwner \<or>
           act = acceptInvitation"
  shows "act (Inr (Some u)) s = (Inr (), (addUsers [u] s)\<lparr>currentUserId := get_prop u ''id''\<rparr>) \<and>
         js_to_string (get_prop u ''id'') \<in> dom (users (addUsers [u] s)) \<and>
         js_to_string (currentUserId (snd (act (Inr (Some u)) s)))
           \<in> dom (users (snd (act (Inr (Some u)) s))) \<and>
         act (Inr None) s = (Inr (), s) \<and>
         act (Inl e) s = (Inl e, s)"
proof -
  have key: "js_to_string (get_prop u ''id'') \<in> dom (users (addUsers [u] s))"
    by (simp only: addUsers_single addUser_keys_id)
  from assms show ?thesis
    using key
    by (auto simp: loginWithCookie_def loginWithCreds_def createOwner_def acceptInvitation_def
        posthog_init_def stopShowingSetupPage_def Let_def)
qed

text \<open>\<open>createOwner\<close> on the empty store: the id \<open>1\<close> is current and keys \<open>users\<close>.\<close>

theorem currentUserId_keys_users_witness:
  "currentUserId (snd (createOwner (Inr (Some ex_user)) initial_state)) = JStr ''1'' \<and>
   ''1'' \<in> dom (users (addUsers [ex_user] initial_state)) \<and>
   ''1'' \<in> dom (users (snd (createOwner (Inr (Some ex_user)) initial_state)))"
proof -
  have h: "createOwner = loginWithCookie \<or> createOwner = loginWithCreds \<or>
           createOwner = createOwner \<or> createOwner = acceptInvitation"
    by simp
  have i: "get_prop ex_user ''id'' = JStr ''1''" by (simp add: get_prop_def ex_user_def)
  from currentUserId_keys_users [where act = createOwner and u = ex_user and s = initial_state,
      OF h]
  show ?thesis by (simp add: i)
qed

text \<open>
  C6. When the remote logout fails, \<open>logout\<close> rejects with that error and the store is
  unchanged (\<open>currentUserId\<close>, \<open>users\<close>, \<open>currentUserCloudInfo\<close> and all);
  when it succeeds, \<open>currentUserId\<close> and \<open>currentUserCloudInfo\<close> are \<open>null\<close>
  afterwards, and \<open>users\<close> is as before.
\<close>

theorem logout_atomic:
  "logout (Inl e) s = (Inl e, s) \<and>
   fst (logout (Inr ()) s) = Inr () \<and>
   currentUserId (snd (logout (Inr ()) s)) = JNull \<and>
   currentUserCloudInfo (snd (logout (Inr ()) s)) = JNull \<and>
   users (snd (logout (Inr ()) s)) = users s \<and>
   initialized (snd (logout (Inr ()) s)) = initialized s"
  by (simp add: logout_def Let_def cloudPlan_reset_def posthog_reset_def clearBannerStack_def)


text \<open>
  C7. \<open>initialize\<close> never rejects, whatever the client does; on a store that is
  initialized it does nothing; and no action of the store, and no sequence of actions,
  takes \<open>initialized\<close> from true to false: the flag changes only from false to true,
  and only in an \<open>initialize\<close> whose cookie login did not fail.
\<close>

theorem initialize_never_throws:
  "fst (initialize api s) = Inr () \<and>
   (initialized s \<longrightarrow> initialize api s = (Inr (), s)) \<and>
   (initialized s \<longrightarrow> initialized (perform c s)) \<and>
   (initialized s \<longrightarrow> initialized (fold perform cs s)) \<and>
   (initialized (perform c s) \<noteq> initialized s \<longrightarrow>
      \<not> initialized s \<and> (\<exists>r. c = Initialize (Inr r)))"
proof -
  have a: "fst (initialize api s) = Inr ()"
    by (simp add: initialize_cases split: sum.splits)
  have b: "initialized s \<longrightarrow> initialize api s = (Inr (), s)"
    by (simp add: initialize_def)
  have e: "initialized (perform c s) \<noteq> initialized s \<longrightarrow>
      \<not> initialized s \<and> (\<exists>r. c = Initialize (Inr r))"
  proof (cases "\<exists>api. c = Initialize api")
    case True
    then obtain api where "c = Initialize api" by blast
    then show ?thesis by (cases api) (auto simp: initialize_cases)
  next
    case False
    then show ?thesis by (simp add: perform_initialized)
  qed
  show ?thesis
    using a b e perform_keeps_initialized fold_perform_keeps_initialized by blast
qed


text \<open>
  On an initialized store, \<open>initialize\<close> with a failing client changes nothing, and
  deleting and logging out keep the flag; on the fresh store a failing client is
  swallowed, and an empty answer sets the flag.
\<close>

theorem initialize_never_throws_witness:
  "initialized (initial_state\<lparr>initialized := True\<rparr>) \<and>
   initialize (Inl (TypeError (cannot_read ''user''))) (initial_state\<lparr>initialized := True\<rparr>)
     = (Inr (), initial_state\<lparr>initialized := True\<rparr>) \<and>
   initialized (perform (Logout (Inr ())) (initial_state\<lparr>initialized := True\<rparr>)) \<and>
   initialized (fold perform [DeleteUserById ''1'', Logout (Inr ())]
                  (initial_state\<lparr>initialized := True\<rparr>)) \<and>
   fst (initialize (Inl (TypeError (cannot_read ''user''))) initial_state) = Inr () \<and>
   initialized (perform (Initialize (Inr None)) initial_state) \<noteq> initialized initial_state \<and>
   \<not> initialized initial_state"
proof -
  let ?s = "initial_state\<lparr>initialized := True\<rparr>"
  have h: "initialized ?s" by simp
  have g: "initialized (perform (Initialize (Inr None)) initial_state)
             \<noteq> initialized initial_state"
    by (simp add: initialize_def loginWithCookie_def initial_state_def)
  from initialize_never_throws [where api = "Inl (TypeError (cannot_read ''user''))" and s = ?s
      and c = "Logout (Inr ())" and cs = "[DeleteUserById ''1'', Logout (Inr ())]"] h
  have 1: "initialize (Inl (TypeError (cannot_read ''user''))) ?s = (Inr (), ?s)"
    "initialized (perform (Logout (Inr ())) ?s)"
    "initialized (fold perform [DeleteUserById ''1'', Logout (Inr ())] ?s)"
    by blast+
  from initialize_never_throws [where api = "Inl (TypeError (cannot_read ''user''))" and s = initial_state
      and c = "Initialize (Inr None)" and cs = "[]"] g
  have 2: "fst (initialize (Inl (TypeError (cannot_read ''user''))) initial_state) = Inr ()"
    "\<not> initialized initial_state"
    by blast+
  show ?thesis using h g 1 2 by blast
qed

section \<open>Invitations and removal\<close>

text \<open>
  C8. Given an answer of the client with a first entry \<open>r\<close> whose \<open>emailSent\<close> is a
  boolean, \<open>reinviteUser\<close> rejects exactly when that flag is false; the error is
  \<open>Error(r.error)\<close>, whose message is the \<open>error\<close> string of the entry; when the flag
  is true the action resolves. The store is not touched.
\<close>

theorem reinviteUser_error:
  assumes "get_prop (user r) ''emailSent'' = JBool sent"
  shows "((\<exists>e. fst (reinviteUser (Inr (r # rs)) s) = Inl e) \<longleftrightarrow> \<not> sent) \<and>
         (\<not> sent \<longrightarrow> fst (reinviteUser (Inr (r # rs)) s) = Inl (Error (error r))) \<and>
         (\<forall>m. \<not> sent \<and> error r = JStr m \<longrightarrow>
            fst (reinviteUser (Inr (r # rs)) s) = Inl (JsError ''Error'' m)) \<and>
         (sent \<longrightarrow> fst (reinviteUser (Inr (r # rs)) s) = Inr ()) \<and>
         snd (reinviteUser (Inr (r # rs)) s) = s"
  using assms by (auto simp: reinviteUser_def Error_def)

text \<open>The example of the spec: an unsent invitation with the error \<open>bounced\<close>.\<close>

theorem reinviteUser_error_witness:
  "get_prop (user (ex_invite False)) ''emailSent'' = JBool False \<and>
   fst (reinviteUser (Inr [ex_invite False]) initial_state) = Inl (JsError ''Error'' ''bounced'') \<and>
   get_prop (user (ex_invite True)) ''emailSent'' = JBool True \<and>
   fst (reinviteUser (Inr [ex_invite True]) initial_state) = Inr ()"
proof -
  have f: "get_prop (user (ex_invite False)) ''emailSent'' = JBool False"
    and t: "get_prop (user (ex_invite True)) ''emailSent'' = JBool True"
    by (simp_all add: ex_invite_def get_prop_def)
  have e: "error (ex_invite False) = JStr ''bounced''" by (simp add: ex_invite_def)
  from reinviteUser_error [where r = "ex_invite False" and sent = False and rs = "[]"
      and s = initial_state, OF f] e
  have 1: "fst (reinviteUser (Inr [ex_invite False]) initial_state)
             = Inl (JsError ''Error'' ''bounced'')"
    by blast
  from reinviteUser_error [where r = "ex_invite True" and sent = True and rs = "[]"
      and s = initial_state, OF t]
  have 2: "fst (reinviteUser (Inr [ex_invite True]) initial_state) = Inr ()"
    by blast
  show ?thesis using f t 1 2 by blast
qed

text \<open>
  C9. \<open>deleteUserById\<close> removes the key \<open>userId\<close> from \<open>users\<close> and leaves every
  other entry as it was; it changes nothing when the key is absent; and it never
  changes \<open>currentUserId\<close> (nor \<open>currentUserCloudInfo\<close> and \<open>initialized\<close>).
\<close>

theorem deleteUserById_frame:
  "users (deleteUserById userId s) userId = None \<and>
   (\<forall>k. k \<noteq> userId \<longrightarrow> users (deleteUserById userId s) k = users s k) \<and>
   (userId \<notin> dom (users s) \<longrightarrow> deleteUserById userId s = s) \<and>
   currentUserId (deleteUserById userId s) = currentUserId s \<and>
   currentUserCloudInfo (deleteUserById userId s) = currentUserCloudInfo s \<and>
   initialized (deleteUserById userId s) = initialized s"
proof -
  have "(users s)(userId := None) = users s" if "userId \<notin> dom (users s)"
    using that by (auto simp: fun_eq_iff)
  then show ?thesis by (simp add: deleteUserById_def)
qed

text \<open>
  Deleting the current user: the entry is gone, the other keys are untouched, and
  \<open>currentUserId\<close> still names the deleted id, so the current user is no longer found.
\<close>

theorem deleteUserById_frame_witness:
  "currentUserId ex_logged_in = JStr ''1'' \<and>
   ''1'' \<in> dom (users ex_logged_in) \<and>
   users (deleteUserById ''1'' ex_logged_in) ''1'' = None \<and>
   ''2'' \<noteq> ''1'' \<and>
   users (deleteUserById ''1'' ex_logged_in) ''2'' = users ex_logged_in ''2'' \<and>
   currentUserId (deleteUserById ''1'' ex_logged_in) = JStr ''1'' \<and>
   currentUser (deleteUserById ''1'' ex_logged_in) = None \<and>
   ''3'' \<notin> dom (users ex_logged_in) \<and>
   deleteUserById ''3'' ex_logged_in = ex_logged_in"
proof -
  have c: "currentUserId ex_logged_in = JStr ''1''"
    by (simp add: ex_logged_in_def loginWithCookie_def posthog_init_def Let_def get_prop_def
        ex_user_def)
  have d: "''1'' \<in> dom (users ex_logged_in)" "''3'' \<notin> dom (users ex_logged_in)"
    by (simp_all add: ex_logged_in_def loginWithCookie_def posthog_init_def eval_defs ex_user_def)
  have n: "''2'' \<noteq> ''1''" by simp
  note a = deleteUserById_frame [where userId = "''1''" and s = ex_logged_in]
  note b = deleteUserById_frame [where userId = "''3''" and s = ex_logged_in]
  from a have 1: "users (deleteUserById ''1'' ex_logged_in) ''1'' = None"
    "currentUserId (deleteUserById ''1'' ex_logged_in) = currentUserId ex_logged_in"
    by simp_all
  from a n have 2: "users (deleteUserById ''1'' ex_logged_in) ''2'' = users ex_logged_in ''2''"
    by simp
  from b d(2) have 3: "deleteUserById ''3'' ex_logged_in = ex_logged_in" by simp
  from 1 c have 4: "currentUser (deleteUserById ''1'' ex_logged_in) = None"
    by (simp add: currentUser_def)
  show ?thesis using c d n 1 2 3 4 by simp
qed

end
